theory Spec2Isabelle
  imports Main
begin

section \<open>Product catalogue service: data model\<close>

text \<open>
  The HTTP layer is \<^verbatim>\<open>service/routes.py\<close>. The model layer it imports
  (\<^verbatim>\<open>service/models.py\<close>: \<open>Product\<close>, \<open>Category\<close>, \<open>DataValidationError\<close>) and the
  error handlers are not among the sources, so the store operations, \<open>serialize\<close> and
  \<open>deserialize\<close> below follow the specification's contract for them; each such definition
  says so. The route handlers are translated from the source line by line.
\<close>

subsection \<open>Decimals, categories, products\<close>

text \<open>
  A decimal is an unscaled integer with a scale: \<open>Decimal m k\<close> denotes \<open>m / 10^k\<close>, so
  \<open>12.50\<close> is \<open>Decimal 1250 2\<close>. Decimal comparison is numeric: \<open>12.50\<close> and \<open>12.5\<close>
  compare equal although their digits differ.
\<close>

datatype decimal = Decimal (unscaled: int) (scale: nat)

definition dec_eq :: "decimal \<Rightarrow> decimal \<Rightarrow> bool" where
  "dec_eq a b = (unscaled a * 10 ^ scale b = unscaled b * 10 ^ scale a)"

definition dec_nonneg :: "decimal \<Rightarrow> bool" where
  "dec_nonneg d = (0 \<le> unscaled d)"

text \<open>
  \<open>Category\<close> is a closed enum whose declaration is not among the sources. A member is
  identified by its name; the list of declared member names is a parameter (\<open>cats\<close>) of
  every function that looks a name up.
\<close>

datatype Category = Member (member_name: string)

text \<open>
  A \<open>Product\<close> object. Python attributes may hold \<open>None\<close>: a product built by
  \<open>Product()\<close> has every attribute unset until \<open>deserialize\<close> fills it, and \<open>id\<close> is
  \<open>None\<close> until the product is persisted. The attribute \<open>id\<close> is named \<open>ident\<close>
  here.
\<close>

record Product =
  ident :: "nat option"
  name :: "string option"
  description :: "string option"
  price :: "decimal option"
  available :: "bool option"
  category :: "Category option"

definition Product_init :: Product where
  "Product_init = \<lparr>ident = None, name = None, description = None, price = None,
                    available = None, category = None\<rparr>"

text \<open>
  What a handler can raise: the model's \<open>DataValidationError\<close>, Python's
  \<open>AttributeError\<close>, the \<open>BadRequest\<close> of \<open>request.get_json()\<close> on a body whose text
  does not parse as JSON, and Flask's \<open>abort(code, message)\<close>.
\<close>

datatype error =
    DataValidationError
  | AttributeError
  | BadRequest
  | Abort nat string

subsection \<open>Untyped key-value payloads\<close>

datatype jval = JNull | JBool bool | JNum decimal | JStr string

type_synonym payload = "string \<rightharpoonup> jval"

text \<open>
  What \<open>request.get_json()\<close> hands to a handler: a JSON object, which is a key-value
  payload, or some other JSON value (an array, a string, a number, a boolean or null).
\<close>

datatype json_value = JsonObject payload | JsonOther

definition get_str :: "payload \<Rightarrow> string \<Rightarrow> string option" where
  "get_str data k = (case data k of Some (JStr v) \<Rightarrow> Some v | _ \<Rightarrow> None)"

definition get_num :: "payload \<Rightarrow> string \<Rightarrow> decimal option" where
  "get_num data k = (case data k of Some (JNum v) \<Rightarrow> Some v | _ \<Rightarrow> None)"

definition get_bool :: "payload \<Rightarrow> string \<Rightarrow> bool option" where
  "get_bool data k = (case data k of Some (JBool v) \<Rightarrow> Some v | _ \<Rightarrow> None)"

text \<open>
  Python's \<open>getattr(Category, s)\<close>: the member named \<open>s\<close>, or \<open>AttributeError\<close> when the
  enum declares no such member.
\<close>

definition getattr_Category :: "string list \<Rightarrow> string \<Rightarrow> error + Category" where
  "getattr_Category cats s = (if s \<in> set cats then Inr (Member s) else Inl AttributeError)"

text \<open>
  Modelled from the spec: \<open>Product.serialize\<close> (models.py is missing). "Converts a
  Product into an untyped key-value payload exposing all fields, with category rendered as
  its name." An unset attribute is rendered as null.
\<close>

definition serialize :: "Product \<Rightarrow> payload" where
  "serialize p =
     [''id'' \<mapsto> (case ident p of None \<Rightarrow> JNull | Some i \<Rightarrow> JNum (Decimal (int i) 0)),
      ''name'' \<mapsto> (case name p of None \<Rightarrow> JNull | Some n \<Rightarrow> JStr n),
      ''description'' \<mapsto> (case description p of None \<Rightarrow> JNull | Some d \<Rightarrow> JStr d),
      ''price'' \<mapsto> (case price p of None \<Rightarrow> JNull | Some x \<Rightarrow> JNum x),
      ''available'' \<mapsto> (case available p of None \<Rightarrow> JNull | Some b \<Rightarrow> JBool b),
      ''category'' \<mapsto> (case category p of None \<Rightarrow> JNull | Some c \<Rightarrow> JStr (member_name c))]"

text \<open>
  Modelled from the spec: \<open>Product.deserialize\<close> (models.py is missing). "Converts an
  untyped key-value payload into a Product; fails with a DataValidationError when required
  keys are absent, types are wrong (e.g., availability not boolean), or category is not a
  recognized enum name." The receiving object keeps its \<open>id\<close>; its other five attributes
  are overwritten.
\<close>

definition deserialize :: "string list \<Rightarrow> Product \<Rightarrow> payload \<Rightarrow> error + Product" where
  "deserialize cats p data =
     (case get_str data ''name'' of None \<Rightarrow> Inl DataValidationError | Some n \<Rightarrow>
     (case get_str data ''description'' of None \<Rightarrow> Inl DataValidationError | Some d \<Rightarrow>
     (case get_num data ''price'' of None \<Rightarrow> Inl DataValidationError | Some x \<Rightarrow>
     (case get_bool data ''available'' of None \<Rightarrow> Inl DataValidationError | Some b \<Rightarrow>
     (case get_str data ''category'' of None \<Rightarrow> Inl DataValidationError | Some c \<Rightarrow>
     (case getattr_Category cats c of Inl _ \<Rightarrow> Inl DataValidationError | Inr cat \<Rightarrow>
        Inr (p\<lparr>name := Some n, description := Some d, price := Some x,
               available := Some b, category := Some cat\<rparr>)))))))"

text \<open>
  Modelled from the spec: \<open>Product.deserialize\<close> on data that is not a key-value payload
  (models.py is missing). "Fails with a DataValidationError when required keys are absent,
  types are wrong": a JSON value that is no object has the wrong type and no keys.
\<close>

definition deserialize_data :: "string list \<Rightarrow> Product \<Rightarrow> json_value \<Rightarrow> error + Product" where
  "deserialize_data cats p data =
     (case data of JsonObject d \<Rightarrow> deserialize cats p d | JsonOther \<Rightarrow> Inl DataValidationError)"

subsection \<open>The product store\<close>

text \<open>
  "A single table/collection of Product rows keyed by a server-generated unique id." The
  table is a list of rows (the specification promises no order, and the properties below
  speak of the set of rows); \<open>next_id\<close> is the id generator.
\<close>

record Store =
  rows :: "Product list"
  next_id :: nat

definition empty_store :: Store where
  "empty_store = \<lparr>rows = [], next_id = 1\<rparr>"

text \<open>
  The data model's field constraints. \<open>fields_present\<close>: every required field is set and
  the category is a member of the declared enum. \<open>valid_product\<close>: moreover the price is
  non-negative.
\<close>

definition fields_present :: "string list \<Rightarrow> Product \<Rightarrow> bool" where
  "fields_present cats p =
     (name p \<noteq> None \<and> description p \<noteq> None \<and> price p \<noteq> None \<and> available p \<noteq> None \<and>
      (case category p of None \<Rightarrow> False | Some c \<Rightarrow> member_name c \<in> set cats))"

definition valid_product :: "string list \<Rightarrow> Product \<Rightarrow> bool" where
  "valid_product cats p =
     (fields_present cats p \<and> (case price p of None \<Rightarrow> False | Some x \<Rightarrow> dec_nonneg x))"

text \<open>
  Modelled from the spec: \<open>Product.create\<close> (models.py is missing). "Persists a transient
  product, assigns a unique id, returns the persisted entity. Fails with ValidationError if
  required fields are missing or malformed."
\<close>

definition create :: "string list \<Rightarrow> Store \<Rightarrow> Product \<Rightarrow> (error + Product) \<times> Store" where
  "create cats s p =
     (if \<not> valid_product cats p then (Inl DataValidationError, s)
      else let p' = p\<lparr>ident := Some (next_id s)\<rparr>
           in (Inr p', s\<lparr>rows := rows s @ [p'], next_id := Suc (next_id s)\<rparr>))"

text \<open>
  Modelled from the spec: \<open>Product.update\<close> (models.py is missing). "Persists changes to
  an existing product identified by id. Fails with ValidationError if id is null/absent
  (cannot update a non-persisted entity)."
\<close>

definition update :: "Store \<Rightarrow> Product \<Rightarrow> (error + unit) \<times> Store" where
  "update s p =
     (if ident p = None then (Inl DataValidationError, s)
      else (Inr (), s\<lparr>rows := map (\<lambda>q. if ident q = ident p then p else q) (rows s)\<rparr>))"

text \<open>
  Modelled from the spec: \<open>Product.delete\<close> (models.py is missing). "Removes the product
  by id; no-op error if the product does not exist (idempotent tolerance acceptable)."
\<close>

definition delete :: "Store \<Rightarrow> Product \<Rightarrow> Store" where
  "delete s p = s\<lparr>rows := filter (\<lambda>q. ident q \<noteq> ident p) (rows s)\<rparr>"

text \<open>
  Modelled from the spec: \<open>Product.find\<close> (models.py is missing). "Returns the product
  with the given id, or an absence indicator (not found) if none exists."
\<close>

definition find_product :: "Store \<Rightarrow> nat \<Rightarrow> Product option" where
  "find_product s i = List.find (\<lambda>p. ident p = Some i) (rows s)"

text \<open>
  Modelled from the spec: \<open>Product.all\<close> (models.py is missing). "Returns every product,
  insertion order not guaranteed."
\<close>

definition all_products :: "Store \<Rightarrow> Product list" where
  "all_products s = rows s"

text \<open>
  Modelled from the spec: \<open>Product.find_by_name\<close> (models.py is missing). "Returns all
  products whose name exactly matches (case-sensitive)."
\<close>

definition find_by_name :: "Store \<Rightarrow> string \<Rightarrow> Product list" where
  "find_by_name s n = filter (\<lambda>p. name p = Some n) (rows s)"

text \<open>
  Modelled from the spec: \<open>Product.find_by_category\<close> (models.py is missing). "Returns
  all products whose category exactly matches the enum member."
\<close>

definition find_by_category :: "Store \<Rightarrow> Category \<Rightarrow> Product list" where
  "find_by_category s c = filter (\<lambda>p. category p = Some c) (rows s)"

text \<open>
  Modelled from the spec: \<open>Product.find_by_availability\<close> (models.py is missing).
  "Returns all products whose availability flag matches (input may be a string
  "true"/"false" that must be parsed to boolean)." The argument is a boolean or a string;
  the specification names no other string, and the model lets the lookup fail with a
  validation error on one.
\<close>

datatype avail_arg = ABool bool | AStr string

definition parse_available :: "avail_arg \<Rightarrow> bool option" where
  "parse_available a =
     (case a of ABool b \<Rightarrow> Some b
      | AStr v \<Rightarrow> if v = ''true'' then Some True
                  else if v = ''false'' then Some False else None)"

definition find_by_availability :: "Store \<Rightarrow> avail_arg \<Rightarrow> error + Product list" where
  "find_by_availability s a =
     (case parse_available a of None \<Rightarrow> Inl DataValidationError
      | Some b \<Rightarrow> Inr (filter (\<lambda>p. available p = Some b) (rows s)))"

text \<open>
  Modelled from the spec: \<open>Product.find_by_price\<close> (models.py is missing). "Returns all
  products whose price exactly matches (decimal comparison)."
\<close>

definition find_by_price :: "Store \<Rightarrow> decimal \<Rightarrow> Product list" where
  "find_by_price s x =
     filter (\<lambda>p. case price p of None \<Rightarrow> False | Some y \<Rightarrow> dec_eq y x) (rows s)"

section \<open>The HTTP layer (service/routes.py)\<close>

subsection \<open>Requests and responses\<close>

text \<open>
  The parts of Flask's \<open>request\<close> the handlers read: the headers, the query parameters
  (\<open>request.args\<close>) and the body as a JSON parser reads it: \<open>None\<close> when the text of
  the body does not parse, otherwise the value it denotes, an object or not. A path
  parameter \<open>product_id\<close> is the id it denotes.
\<close>

record request =
  headers :: "string \<rightharpoonup> string"
  args :: "string \<rightharpoonup> string"
  json :: "json_value option"

text \<open>
  A response body is what \<open>jsonify\<close> renders of a string or of a serialized product, a
  list of serialized products, or raw text.
\<close>

datatype body =
    JsonStr string
  | JsonObj payload
  | JsonList "payload list"
  | Text string

datatype response =
  Response (status: nat) (content: body) (response_headers: "(string \<times> string) list")

definition HTTP_200_OK :: nat where "HTTP_200_OK = 200"
definition HTTP_201_CREATED :: nat where "HTTP_201_CREATED = 201"
definition HTTP_204_NO_CONTENT :: nat where "HTTP_204_NO_CONTENT = 204"
definition HTTP_404_NOT_FOUND :: nat where "HTTP_404_NOT_FOUND = 404"
definition HTTP_415_UNSUPPORTED_MEDIA_TYPE :: nat where "HTTP_415_UNSUPPORTED_MEDIA_TYPE = 415"

text \<open>
  Modelled from the spec: the error handler registered for \<open>DataValidationError\<close>
  (service/common/error_handlers.py is missing). "Validation failure \<rightarrow> descriptive message
  + 400."
\<close>

definition validation_failure_status :: nat where
  "validation_failure_status = 400"

text \<open>
  The status the client receives. A returned response carries its own; \<open>abort\<close> answers
  with its code and \<open>BadRequest\<close> with 400; an exception that nothing handles is answered
  by Flask with 500.
\<close>

definition status_of :: "error + response \<Rightarrow> nat" where
  "status_of r =
     (case r of Inr resp \<Rightarrow> status resp
      | Inl (Abort code _) \<Rightarrow> code
      | Inl BadRequest \<Rightarrow> 400
      | Inl DataValidationError \<Rightarrow> validation_failure_status
      | Inl AttributeError \<Rightarrow> 500)"

subsection \<open>Utility functions\<close>

definition check_content_type :: "request \<Rightarrow> string \<Rightarrow> error + unit" where
  "check_content_type req content_type =
     (case headers req ''Content-Type'' of
        None \<Rightarrow>
          Inl (Abort HTTP_415_UNSUPPORTED_MEDIA_TYPE (''Content-Type must be '' @ content_type))
      | Some v \<Rightarrow>
          if v = content_type then Inr ()
          else Inl (Abort HTTP_415_UNSUPPORTED_MEDIA_TYPE
                      (''Content-Type must be '' @ content_type)))"

text \<open>
  \<open>request.get_json()\<close>, called once the content type is known to be JSON: it raises
  \<open>BadRequest\<close> when the text does not parse and returns the parsed value otherwise,
  whatever its kind.
\<close>

definition get_json :: "request \<Rightarrow> error + json_value" where
  "get_json req = (case json req of None \<Rightarrow> Inl BadRequest | Some data \<Rightarrow> Inr data)"

text \<open>
  Python's \<open>str.upper\<close> follows the Unicode case mappings (it sends U+017F to \<open>S\<close> and
  U+00DF to \<open>SS\<close>); it is not written out here. The handler that calls it takes the
  uppercasing function as its parameter \<open>upper\<close>, and what is proved of the handler holds
  for every such function. On ASCII text \<open>str.upper\<close> is \<open>ascii_upper\<close>: the letters
  \<open>a\<close> to \<open>z\<close> become \<open>A\<close> to \<open>Z\<close> and every other character stays; the concrete
  requests below carry ASCII text only.
\<close>

definition upper_char :: "char \<Rightarrow> char" where
  "upper_char c =
     (if 97 \<le> (of_char c :: nat) \<and> (of_char c :: nat) \<le> 122
      then char_of ((of_char c :: nat) - 32) else c)"

definition ascii_upper :: "string \<Rightarrow> string" where
  "ascii_upper s = map upper_char s"

text \<open>
  The handlers format their not-found message as \<^verbatim>\<open>f"product with id:{id} not found"\<close>.
  No variable \<open>id\<close> is bound in them, so the name is Python's builtin function \<open>id\<close>, and
  the text interpolated is the builtin's \<open>str\<close>.
\<close>

definition str_builtin_id :: string where
  "str_builtin_id = ''<built-in function id>''"

definition not_found_message :: string where
  "not_found_message = ''product with id:'' @ str_builtin_id @ '' not found''"

subsection \<open>Create a new product\<close>

definition create_products ::
    "string list \<Rightarrow> Store \<Rightarrow> request \<Rightarrow> (error + response) \<times> Store" where
  "create_products cats s req =
     (case check_content_type req ''application/json'' of
        Inl e \<Rightarrow> (Inl e, s)
      | Inr _ \<Rightarrow>
     (case get_json req of
        Inl e \<Rightarrow> (Inl e, s)
      | Inr data \<Rightarrow>
     (case deserialize_data cats Product_init data of
        Inl e \<Rightarrow> (Inl e, s)
      | Inr product \<Rightarrow>
     (case create cats s product of
        (Inl e, s') \<Rightarrow> (Inl e, s')
      | (Inr product', s') \<Rightarrow>
          (Inr (Response HTTP_201_CREATED (JsonObj (serialize product'))
                  [(''Location'', ''/'')]), s')))))"

subsection \<open>List all products\<close>

text \<open>
  The loop that fills \<open>message\<close>:
  \<^verbatim>\<open>for product in products: data = product.serialize(); message.append(data)\<close>.
\<close>

fun append_serialized :: "Product list \<Rightarrow> payload list \<Rightarrow> payload list" where
  "append_serialized [] message = message"
| "append_serialized (product # products) message =
     append_serialized products (message @ [serialize product])"

text \<open>
  \<open>request.args.get\<close> gives \<open>None\<close> for an absent parameter; \<open>if searched_name:\<close> is
  Python truthiness, false for \<open>None\<close> and for the empty string.
\<close>

definition truthy :: "string option \<Rightarrow> bool" where
  "truthy v = (case v of None \<Rightarrow> False | Some x \<Rightarrow> x \<noteq> [])"

text \<open>
  The handler first picks \<open>products\<close> in its \<open>if\<close>/\<open>elif\<close> chain, where the category
  lookup or the store may raise, then runs the loop and returns \<open>message\<close> with 200.
\<close>

definition read_all_products ::
    "(string \<Rightarrow> string) \<Rightarrow> string list \<Rightarrow> Store \<Rightarrow> request \<Rightarrow> (error + response) \<times> Store"
    where
  "read_all_products upper cats s req =
     (let message = [];
          searched_name = args req ''name'';
          searched_category = args req ''category'';
          searched_availabe = args req ''available'';
          chosen =
            (if truthy searched_name then
               Inr (find_by_name s (the searched_name))
             else if truthy searched_category then
               (case getattr_Category cats (upper (the searched_category)) of
                  Inl e \<Rightarrow> Inl e
                | Inr cat \<Rightarrow> Inr (find_by_category s cat))
             else if truthy searched_availabe then
               find_by_availability s (AStr (the searched_availabe))
             else Inr (all_products s))
      in case chosen of
           Inl e \<Rightarrow> (Inl e, s)
         | Inr products \<Rightarrow>
             (Inr (Response HTTP_200_OK (JsonList (append_serialized products message)) []),
              s))"

subsection \<open>Read, update and delete a product\<close>

definition read_product :: "Store \<Rightarrow> nat \<Rightarrow> (error + response) \<times> Store" where
  "read_product s product_id =
     (case find_product s product_id of
        None \<Rightarrow> (Inr (Response HTTP_404_NOT_FOUND (JsonStr not_found_message) []), s)
      | Some product \<Rightarrow> (Inr (Response HTTP_200_OK (JsonObj (serialize product)) []), s))"

definition update_products ::
    "string list \<Rightarrow> Store \<Rightarrow> nat \<Rightarrow> request \<Rightarrow> (error + response) \<times> Store" where
  "update_products cats s product_id req =
     (case check_content_type req ''application/json'' of
        Inl e \<Rightarrow> (Inl e, s)
      | Inr _ \<Rightarrow>
     (case get_json req of
        Inl e \<Rightarrow> (Inl e, s)
      | Inr data \<Rightarrow>
     (case find_product s product_id of
        None \<Rightarrow> (Inr (Response HTTP_404_NOT_FOUND (JsonStr not_found_message) []), s)
      | Some found \<Rightarrow>
     (case deserialize_data cats found data of
        Inl e \<Rightarrow> (Inl e, s)
      | Inr product \<Rightarrow>
     (case update s product of
        (Inl e, s') \<Rightarrow> (Inl e, s')
      | (Inr _, s') \<Rightarrow>
          (Inr (Response HTTP_200_OK (JsonObj (serialize product))
                  [(''Location'', ''/'')]), s'))))))"

definition delete_products :: "Store \<Rightarrow> nat \<Rightarrow> (error + response) \<times> Store" where
  "delete_products s product_id =
     (case find_product s product_id of
        None \<Rightarrow> (Inr (Response HTTP_404_NOT_FOUND (JsonStr not_found_message) []), s)
      | Some product \<Rightarrow> (Inr (Response HTTP_204_NO_CONTENT (Text []) []), delete s product))"

section \<open>Specification-level notions\<close>

text \<open>
  A valid payload, after the deserialization contract and the data model: the five required
  keys are present with the right types, the price is non-negative and the category names a
  declared member.
\<close>

definition valid_payload :: "string list \<Rightarrow> payload \<Rightarrow> bool" where
  "valid_payload cats data =
     (get_str data ''name'' \<noteq> None \<and> get_str data ''description'' \<noteq> None \<and>
      (case get_num data ''price'' of None \<Rightarrow> False | Some x \<Rightarrow> dec_nonneg x) \<and>
      get_bool data ''available'' \<noteq> None \<and>
      (case get_str data ''category'' of None \<Rightarrow> False | Some c \<Rightarrow> c \<in> set cats))"

text \<open>
  The store invariant: every row is persisted (has an id) and its id was handed out by the
  generator already, so the next id is fresh.
\<close>

definition wf_store :: "Store \<Rightarrow> bool" where
  "wf_store s =
     list_all (\<lambda>p. case ident p of None \<Rightarrow> False | Some i \<Rightarrow> i < next_id s) (rows s)"

text \<open>
  The filter selection of \<open>GET /products\<close> as the specification words it: a parameter
  that is absent or empty has no effect; of the effective ones the name wins over the
  category, which wins over the availability; exactly one alternative is applied.
\<close>

definition effective :: "string option \<Rightarrow> string option" where
  "effective v = (case v of None \<Rightarrow> None | Some x \<Rightarrow> if x = [] then None else Some x)"

datatype applied_filter = ByName string | ByCategory string | ByAvailable string | NoFilter

definition selected_filter :: "request \<Rightarrow> applied_filter" where
  "selected_filter req =
     (case effective (args req ''name'') of
        Some n \<Rightarrow> ByName n
      | None \<Rightarrow>
     (case effective (args req ''category'') of
        Some c \<Rightarrow> ByCategory c
      | None \<Rightarrow>
     (case effective (args req ''available'') of
        Some a \<Rightarrow> ByAvailable a
      | None \<Rightarrow> NoFilter)))"

text \<open>
  The answer that lists \<open>products\<close>: status 200, no extra header, and a body with the
  serialization of each product, in the order given.
\<close>

definition listing :: "Product list \<Rightarrow> response" where
  "listing products = Response 200 (JsonList (map serialize products)) []"

text \<open>
  What the one selected alternative answers: the products of that name; the products of
  the member that the uppercased category names, or the \<open>AttributeError\<close> when it names
  none; the products of that availability, or the store's failure on the string; all
  products.
\<close>

definition apply_filter ::
    "(string \<Rightarrow> string) \<Rightarrow> string list \<Rightarrow> Store \<Rightarrow> applied_filter
       \<Rightarrow> (error + response) \<times> Store" where
  "apply_filter upper cats s f =
     (case f of
        ByName n \<Rightarrow> (Inr (listing (find_by_name s n)), s)
      | ByCategory c \<Rightarrow>
          if upper c \<in> set cats
          then (Inr (listing (find_by_category s (Member (upper c)))), s)
          else (Inl AttributeError, s)
      | ByAvailable a \<Rightarrow>
          (case find_by_availability s (AStr a) of
             Inl e \<Rightarrow> (Inl e, s)
           | Inr products \<Rightarrow> (Inr (listing products), s))
      | NoFilter \<Rightarrow> (Inr (listing (all_products s)), s))"

subsection \<open>Concrete inputs\<close>

text \<open>
  The specification's scenario: the enum declares \<open>CLOTHS\<close> (and here \<open>FOOD\<close>), and the
  product is the red hat \<open>Fedora\<close> at 12.50.
\<close>

definition demo_cats :: "string list" where
  "demo_cats = [''CLOTHS'', ''FOOD'']"

definition fedora_payload :: payload where
  "fedora_payload =
     [''name'' \<mapsto> JStr ''Fedora'', ''description'' \<mapsto> JStr ''A red hat'',
      ''price'' \<mapsto> JNum (Decimal 1250 2), ''available'' \<mapsto> JBool True,
      ''category'' \<mapsto> JStr ''CLOTHS'']"

definition fedora :: Product where
  "fedora = \<lparr>ident = Some 1, name = Some ''Fedora'', description = Some ''A red hat'',
             price = Some (Decimal 1250 2), available = Some True,
             category = Some (Member ''CLOTHS'')\<rparr>"

definition one_row :: Store where
  "one_row = \<lparr>rows = [fedora], next_id = 2\<rparr>"

definition apple :: Product where
  "apple = \<lparr>ident = Some 2, name = Some ''Apple'', description = Some ''A green apple'',
            price = Some (Decimal 30 2), available = Some False,
            category = Some (Member ''FOOD'')\<rparr>"

definition two_rows :: Store where
  "two_rows = \<lparr>rows = [fedora, apple], next_id = 3\<rparr>"

definition text_plain_request :: request where
  "text_plain_request =
     \<lparr>headers = [''Content-Type'' \<mapsto> ''text/plain''], args = Map.empty,
      json = Some (JsonObject fedora_payload)\<rparr>"

definition json_request :: request where
  "json_request =
     \<lparr>headers = [''Content-Type'' \<mapsto> ''application/json''], args = Map.empty,
      json = Some (JsonObject fedora_payload)\<rparr>"

definition name_and_bogus_category :: request where
  "name_and_bogus_category =
     \<lparr>headers = Map.empty, args = [''name'' \<mapsto> ''Fedora'', ''category'' \<mapsto> ''bogus''],
      json = None\<rparr>"

definition bogus_category :: request where
  "bogus_category =
     \<lparr>headers = Map.empty, args = [''category'' \<mapsto> ''bogus''], json = None\<rparr>"

definition all_three_params :: request where
  "all_three_params =
     \<lparr>headers = Map.empty,
      args = [''name'' \<mapsto> ''Fedora'', ''category'' \<mapsto> ''bogus'', ''available'' \<mapsto> ''false''],
      json = None\<rparr>"

definition empty_name_param :: request where
  "empty_name_param =
     \<lparr>headers = Map.empty, args = [''name'' \<mapsto> [], ''available'' \<mapsto> ''false''],
      json = None\<rparr>"

definition category_and_available :: request where
  "category_and_available =
     \<lparr>headers = Map.empty, args = [''category'' \<mapsto> ''food'', ''available'' \<mapsto> ''true''],
      json = None\<rparr>"

definition no_params :: request where
  "no_params = \<lparr>headers = Map.empty, args = Map.empty, json = None\<rparr>"

definition array_body_request :: request where
  "array_body_request =
     \<lparr>headers = [''Content-Type'' \<mapsto> ''application/json''], args = Map.empty,
      json = Some JsonOther\<rparr>"

section \<open>Auxiliary facts\<close>

subsection \<open>Lookups in the table\<close>

lemma find_append_single:
  "List.find P (xs @ [y]) =
     (case List.find P xs of Some x \<Rightarrow> Some x | None \<Rightarrow> if P y then Some y else None)"
  by (induction xs) simp_all

lemma find_fresh_id:
  "wf_store s \<Longrightarrow> List.find (\<lambda>p. ident p = Some (next_id s)) (rows s) = None"
  by (auto simp: wf_store_def find_None_iff list_all_iff split: option.splits)

lemma find_product_ident: "find_product s i = Some p \<Longrightarrow> ident p = Some i"
  by (auto simp: find_product_def find_Some_iff)

lemma find_product_deleted: "ident p = Some i \<Longrightarrow> find_product (delete s p) i = None"
  by (simp add: find_product_def delete_def find_None_iff)

subsection \<open>Valid payloads deserialize, valid products are created\<close>

lemma deserialize_valid:
  assumes "valid_payload cats data"
  shows "\<exists>n d x b c. data ''name'' = Some (JStr n) \<and> data ''description'' = Some (JStr d) \<and>
           data ''price'' = Some (JNum x) \<and> dec_nonneg x \<and> data ''available'' = Some (JBool b) \<and>
           data ''category'' = Some (JStr c) \<and> c \<in> set cats \<and>
           deserialize cats p data =
             Inr (p\<lparr>name := Some n, description := Some d, price := Some x,
                    available := Some b, category := Some (Member c)\<rparr>)"
  using assms
  by (auto simp: valid_payload_def deserialize_def get_str_def get_num_def get_bool_def
        getattr_Category_def split: option.splits jval.splits)

lemma create_valid:
  "valid_product cats p \<Longrightarrow>
     create cats s p =
       (Inr (p\<lparr>ident := Some (next_id s)\<rparr>),
        s\<lparr>rows := rows s @ [p\<lparr>ident := Some (next_id s)\<rparr>], next_id := Suc (next_id s)\<rparr>)"
  by (simp add: create_def Let_def)

lemma valid_fedora_payload: "valid_payload demo_cats fedora_payload"
  by (simp add: valid_payload_def demo_cats_def fedora_payload_def get_str_def get_num_def
        get_bool_def dec_nonneg_def)

subsection \<open>The store invariant holds initially and is kept by every operation\<close>

lemma wf_empty_store: "wf_store empty_store"
  by (simp add: wf_store_def empty_store_def)

lemma wf_one_row: "wf_store one_row"
  by (simp add: wf_store_def one_row_def fedora_def)

lemma wf_create: "wf_store s \<Longrightarrow> create cats s p = (r, s') \<Longrightarrow> wf_store s'"
  by (fastforce simp: wf_store_def create_def Let_def list_all_iff less_Suc_eq
        split: option.splits if_splits)

lemma wf_update: "wf_store s \<Longrightarrow> update s p = (r, s') \<Longrightarrow> wf_store s'"
  by (auto simp: wf_store_def update_def list_all_iff split: option.splits if_splits)

lemma wf_delete: "wf_store s \<Longrightarrow> wf_store (delete s p)"
  by (auto simp: wf_store_def delete_def list_all_iff split: option.splits)

lemma wf_create_products: "wf_store s \<Longrightarrow> wf_store (snd (create_products cats s req))"
  by (auto simp: create_products_def split: sum.splits prod.splits dest: wf_create)

lemma wf_update_products:
  "wf_store s \<Longrightarrow> wf_store (snd (update_products cats s product_id req))"
  by (auto simp: update_products_def split: sum.splits prod.splits option.splits
        dest: wf_update)

lemma wf_delete_products: "wf_store s \<Longrightarrow> wf_store (snd (delete_products s product_id))"
  by (auto simp: delete_products_def wf_delete split: option.splits)

lemma read_all_products_store: "snd (read_all_products upper cats s req) = s"
  by (simp add: read_all_products_def Let_def split: sum.splits)

lemma read_product_store: "snd (read_product s product_id) = s"
  by (simp add: read_product_def split: option.splits)

subsection \<open>The content type check, the message, uppercasing\<close>

lemma check_content_type_rejects:
  "headers req ''Content-Type'' \<noteq> Some content_type \<Longrightarrow>
   check_content_type req content_type =
     Inl (Abort 415 (''Content-Type must be '' @ content_type))"
  by (auto simp: check_content_type_def HTTP_415_UNSUPPORTED_MEDIA_TYPE_def split: option.splits)

lemma check_content_type_accepts:
  "headers req ''Content-Type'' = Some content_type \<Longrightarrow>
   check_content_type req content_type = Inr ()"
  by (simp add: check_content_type_def)

lemma not_found_message_eq:
  "not_found_message = ''product with id:<built-in function id> not found''"
  by (simp add: not_found_message_def str_builtin_id_def)

lemma upper_bogus: "ascii_upper ''bogus'' = ''BOGUS''"
  by code_simp

lemma upper_food: "ascii_upper ''food'' = ''FOOD''"
  by code_simp

subsection \<open>The loop of the listing handler\<close>

lemma append_serialized_eq: "append_serialized products message = message @ map serialize products"
  by (induction products arbitrary: message) simp_all

lemma read_all_products_chosen:
  "read_all_products upper cats s req =
     (if truthy (args req ''name'') then
        (Inr (listing (find_by_name s (the (args req ''name'')))), s)
      else if truthy (args req ''category'') then
        (if upper (the (args req ''category'')) \<in> set cats
         then (Inr (listing (find_by_category s
                              (Member (upper (the (args req ''category'')))))), s)
         else (Inl AttributeError, s))
      else if truthy (args req ''available'') then
        (case find_by_availability s (AStr (the (args req ''available''))) of
           Inl e \<Rightarrow> (Inl e, s)
         | Inr products \<Rightarrow> (Inr (listing products), s))
      else (Inr (listing (all_products s)), s))"
  by (simp add: read_all_products_def Let_def getattr_Category_def listing_def
        append_serialized_eq HTTP_200_OK_def split: sum.splits)

subsection \<open>A lookup that misses\<close>

text \<open>
  \<open>GET\<close> answers a missing id with 404; \<open>PUT\<close> does so once the content type is
  \<open>application/json\<close> and the body parses, whatever JSON value it holds.
\<close>

lemma missing_id_404:
  assumes "find_product s product_id = None"
  shows "read_product s product_id =
           (Inr (Response 404 (JsonStr not_found_message) []), s)"
    and "headers req ''Content-Type'' = Some ''application/json'' \<Longrightarrow> json req = Some data \<Longrightarrow>
           update_products cats s product_id req =
             (Inr (Response 404 (JsonStr not_found_message) []), s)"
  using assms
  by (simp_all add: read_product_def update_products_def check_content_type_accepts
        get_json_def HTTP_404_NOT_FOUND_def)

section \<open>The claims\<close>

subsection \<open>C1: deleting a product\<close>

text \<open>
  C1, as stated, asks for 204 with an empty body for every id, also one that no product
  has. On the empty store the handler's guard \<open>if not product\<close> answers the deletion of
  product 1 with 404 and the not-found message.
\<close>

theorem delete_missing_counterexample:
  "delete_products empty_store 1 =
     (Inr (Response 404 (JsonStr ''product with id:<built-in function id> not found'') []),
      empty_store)"
  by (simp add: delete_products_def find_product_def empty_store_def HTTP_404_NOT_FOUND_def
        not_found_message_eq)

text \<open>
  C1, amended: \<open>DELETE /products/{product_id}\<close> returns 204 with an empty body when a
  product with that id exists, and the product is removed (a later lookup of the id finds
  nothing); when no product has the id, it returns 404 with the not-found message and
  leaves the store as it is.
\<close>

theorem delete_products_result:
  "(find_product s product_id = None \<longrightarrow>
      delete_products s product_id =
        (Inr (Response 404 (JsonStr not_found_message) []), s)) \<and>
   (\<forall>p. find_product s product_id = Some p \<longrightarrow>
      delete_products s product_id = (Inr (Response 204 (Text []) []), delete s p) \<and>
      find_product (delete s p) product_id = None)"
  by (auto simp: delete_products_def HTTP_404_NOT_FOUND_def HTTP_204_NO_CONTENT_def
        dest!: find_product_ident intro: find_product_deleted)

text \<open>
  C1, both cases at concrete stores: product 1 is missing from the empty store and present
  in the store that holds the Fedora.
\<close>

theorem delete_products_result_witness:
  "find_product empty_store 1 = None \<and>
   status_of (fst (delete_products empty_store 1)) = 404 \<and>
   find_product one_row 1 = Some fedora \<and>
   delete_products one_row 1 = (Inr (Response 204 (Text []) []), \<lparr>rows = [], next_id = 2\<rparr>) \<and>
   find_product (delete one_row fedora) 1 = None"
  using delete_products_result [of empty_store 1] delete_products_result [of one_row 1]
  by (simp add: find_product_def empty_store_def one_row_def fedora_def delete_def status_of_def)

subsection \<open>C2: reading and updating a missing product\<close>

text \<open>
  C2 asks that the 404 answer to a missing id carry a message that names the requested id.
  The handlers interpolate \<open>id\<close>, Python's builtin, where the parameter is \<open>product_id\<close>:
  on the empty store, \<open>GET /products/7\<close> and a JSON \<open>PUT /products/7\<close> (with an object or
  with any other JSON value as body) are answered with 404 and the one fixed text
  \<open>product with id:<built-in function id> not found\<close>; \<open>GET /products/8\<close> gets the very
  same answer, and the digit 7 does not occur in the text.
\<close>

theorem not_found_message_omits_id:
  "read_product empty_store 7 =
     (Inr (Response 404 (JsonStr ''product with id:<built-in function id> not found'') []),
      empty_store) \<and>
   update_products demo_cats empty_store 7 json_request =
     (Inr (Response 404 (JsonStr ''product with id:<built-in function id> not found'') []),
      empty_store) \<and>
   update_products demo_cats empty_store 7 array_body_request =
     (Inr (Response 404 (JsonStr ''product with id:<built-in function id> not found'') []),
      empty_store) \<and>
   read_product empty_store 8 = read_product empty_store 7 \<and>
   CHR ''7'' \<notin> set ''product with id:<built-in function id> not found''"
  by (simp add: read_product_def update_products_def check_content_type_def get_json_def
        find_product_def empty_store_def json_request_def array_body_request_def
        not_found_message_eq HTTP_404_NOT_FOUND_def)

subsection \<open>C3: create, then find\<close>

text \<open>
  C3: for every valid payload \<open>P\<close> (and every store that satisfies the invariant),
  \<open>deserialize\<close> succeeds, \<open>create\<close> succeeds and assigns an id, and \<open>find\<close> on that id
  returns the created product, whose name, description, price, availability and category
  are those of \<open>P\<close>.
\<close>

theorem create_then_find:
  assumes wf: "wf_store s" and valid: "valid_payload cats P"
  shows "\<exists>p p' s' i. deserialize cats Product_init P = Inr p \<and>
           create cats s p = (Inr p', s') \<and>
           ident p' = Some i \<and>
           find_product s' i = Some p' \<and>
           name p' = get_str P ''name'' \<and>
           description p' = get_str P ''description'' \<and>
           price p' = get_num P ''price'' \<and>
           available p' = get_bool P ''available'' \<and>
           map_option member_name (category p') = get_str P ''category''"
proof -
  from deserialize_valid [OF valid, of Product_init]
  obtain n d x b c where
    P: "P ''name'' = Some (JStr n)" "P ''description'' = Some (JStr d)"
       "P ''price'' = Some (JNum x)" "P ''available'' = Some (JBool b)"
       "P ''category'' = Some (JStr c)"
    and x: "dec_nonneg x" and c: "c \<in> set cats"
    and des: "deserialize cats Product_init P =
       Inr (Product_init\<lparr>name := Some n, description := Some d, price := Some x,
                    available := Some b, category := Some (Member c)\<rparr>)"
    by blast
  let ?p = "Product_init\<lparr>name := Some n, description := Some d, price := Some x,
                    available := Some b, category := Some (Member c)\<rparr>"
  let ?p' = "?p\<lparr>ident := Some (next_id s)\<rparr>"
  let ?s' = "s\<lparr>rows := rows s @ [?p'], next_id := Suc (next_id s)\<rparr>"
  have vp: "valid_product cats ?p"
    using x c by (simp add: valid_product_def fields_present_def)
  have cr: "create cats s ?p = (Inr ?p', ?s')"
    using create_valid [OF vp] .
  have fd: "find_product ?s' (next_id s) = Some ?p'"
    using find_fresh_id [OF wf] by (simp add: find_product_def find_append_single)
  have fields: "name ?p' = get_str P ''name''" "description ?p' = get_str P ''description''"
    "price ?p' = get_num P ''price''" "available ?p' = get_bool P ''available''"
    "map_option member_name (category ?p') = get_str P ''category''"
    using P by (simp_all add: get_str_def get_num_def get_bool_def)
  show ?thesis
    using des cr fd fields
    by (intro exI [of _ ?p] exI [of _ ?p'] exI [of _ ?s'] exI [of _ "next_id s"]) simp
qed

text \<open>
  C3, at the store that holds one product already and the Fedora payload: the new product
  gets an id, is found under it and carries the payload's values.
\<close>

theorem create_then_find_witness:
  "wf_store one_row \<and> valid_payload demo_cats fedora_payload \<and>
   (\<exists>p p' s' i. deserialize demo_cats Product_init fedora_payload = Inr p \<and>
      create demo_cats one_row p = (Inr p', s') \<and>
      ident p' = Some i \<and>
      find_product s' i = Some p' \<and>
      name p' = Some ''Fedora'' \<and>
      price p' = Some (Decimal 1250 2) \<and>
      map_option member_name (category p') = Some ''CLOTHS'')"
proof -
  from create_then_find [OF wf_one_row valid_fedora_payload]
  obtain p p' s' i where
    h: "deserialize demo_cats Product_init fedora_payload = Inr p"
       "create demo_cats one_row p = (Inr p', s')"
       "ident p' = Some i"
       "find_product s' i = Some p'"
       "name p' = get_str fedora_payload ''name''"
       "price p' = get_num fedora_payload ''price''"
       "map_option member_name (category p') = get_str fedora_payload ''category''"
    by blast
  have "get_str fedora_payload ''name'' = Some ''Fedora''"
    and "get_num fedora_payload ''price'' = Some (Decimal 1250 2)"
    and "get_str fedora_payload ''category'' = Some ''CLOTHS''"
    by (simp_all add: fedora_payload_def get_str_def get_num_def)
  then show ?thesis
    using h wf_one_row valid_fedora_payload by auto
qed

subsection \<open>C4: the filtered lookups\<close>

text \<open>
  C4: in every store and for every filter value, \<open>find_by_name\<close>, \<open>find_by_category\<close>,
  \<open>find_by_availability\<close> (given a boolean, or the string \<open>true\<close> or \<open>false\<close>) and
  \<open>find_by_price\<close> return, as a set, exactly the products of \<open>all()\<close> whose field equals
  the filter value; prices are compared as decimals.
\<close>

theorem find_by_exact_subset:
  "set (find_by_name s n) = {p \<in> set (all_products s). name p = Some n} \<and>
   set (find_by_category s c) = {p \<in> set (all_products s). category p = Some c} \<and>
   (\<exists>ps. find_by_availability s (ABool b) = Inr ps \<and>
         set ps = {p \<in> set (all_products s). available p = Some b}) \<and>
   (\<exists>ps. find_by_availability s (AStr ''true'') = Inr ps \<and>
         set ps = {p \<in> set (all_products s). available p = Some True}) \<and>
   (\<exists>ps. find_by_availability s (AStr ''false'') = Inr ps \<and>
         set ps = {p \<in> set (all_products s). available p = Some False}) \<and>
   set (find_by_price s x) =
     {p \<in> set (all_products s). \<exists>y. price p = Some y \<and> dec_eq y x}"
  by (auto simp: find_by_name_def find_by_category_def find_by_availability_def
        parse_available_def find_by_price_def all_products_def split: option.splits)

text \<open>
  C4, in the store that holds the Fedora: the name is matched case-sensitively, and no
  product is unavailable.
\<close>

theorem find_by_exact_subset_witness:
  "set (find_by_name one_row ''Fedora'') = {fedora} \<and>
   set (find_by_name one_row ''fedora'') = {} \<and>
   find_by_availability one_row (AStr ''false'') = Inr []"
  using find_by_exact_subset [of one_row "''Fedora''"]
  by (simp add: find_by_name_def find_by_availability_def parse_available_def one_row_def
        fedora_def)

subsection \<open>C5: the content type of write requests\<close>

text \<open>
  C5: a \<open>POST /products\<close> or \<open>PUT /products/{id}\<close> request whose Content-Type header is
  absent or is not \<open>application/json\<close> is answered with 415, and the store is left as it
  was; the answer does not depend on the body.
\<close>

theorem wrong_content_type_415:
  assumes "headers req ''Content-Type'' \<noteq> Some ''application/json''"
  shows "create_products cats s req =
           (Inl (Abort 415 ''Content-Type must be application/json''), s) \<and>
         update_products cats s product_id req =
           (Inl (Abort 415 ''Content-Type must be application/json''), s) \<and>
         status_of (fst (create_products cats s req)) = 415 \<and>
         status_of (fst (update_products cats s product_id req)) = 415"
  using check_content_type_rejects [OF assms]
  by (simp add: create_products_def update_products_def status_of_def)

text \<open>C5, at a \<open>text/plain\<close> request that carries a valid payload.\<close>

theorem wrong_content_type_415_witness:
  "headers text_plain_request ''Content-Type'' \<noteq> Some ''application/json'' \<and>
   create_products demo_cats one_row text_plain_request =
     (Inl (Abort 415 ''Content-Type must be application/json''), one_row) \<and>
   update_products demo_cats one_row 1 text_plain_request =
     (Inl (Abort 415 ''Content-Type must be application/json''), one_row)"
  using wrong_content_type_415 [of text_plain_request demo_cats one_row 1]
  by (simp add: text_plain_request_def)

subsection \<open>C6: creating a product over HTTP\<close>

text \<open>
  C6: a \<open>POST /products\<close> request with Content-Type \<open>application/json\<close> and a valid
  payload is answered with 201; the body is the serialized created product, with the id the
  server assigned and with the payload's name, description, price, availability and
  category; the response carries a Location header.
\<close>

theorem post_valid_payload_201:
  assumes ct: "headers req ''Content-Type'' = Some ''application/json''"
    and body: "json req = Some (JsonObject P)"
    and valid: "valid_payload cats P"
  shows "\<exists>p. create_products cats s req =
           (Inr (Response 201 (JsonObj (serialize p)) [(''Location'', ''/'')]),
            s\<lparr>rows := rows s @ [p], next_id := Suc (next_id s)\<rparr>) \<and>
         ident p = Some (next_id s) \<and>
         serialize p ''id'' = Some (JNum (Decimal (int (next_id s)) 0)) \<and>
         serialize p ''name'' = P ''name'' \<and>
         serialize p ''description'' = P ''description'' \<and>
         serialize p ''price'' = P ''price'' \<and>
         serialize p ''available'' = P ''available'' \<and>
         serialize p ''category'' = P ''category''"
proof -
  from deserialize_valid [OF valid, of Product_init]
  obtain n d x b c where
    P: "P ''name'' = Some (JStr n)" "P ''description'' = Some (JStr d)"
       "P ''price'' = Some (JNum x)" "P ''available'' = Some (JBool b)"
       "P ''category'' = Some (JStr c)"
    and x: "dec_nonneg x" and c: "c \<in> set cats"
    and des: "deserialize cats Product_init P =
       Inr (Product_init\<lparr>name := Some n, description := Some d, price := Some x,
                    available := Some b, category := Some (Member c)\<rparr>)"
    by blast
  let ?p = "Product_init\<lparr>name := Some n, description := Some d, price := Some x,
                    available := Some b, category := Some (Member c)\<rparr>"
  let ?p' = "?p\<lparr>ident := Some (next_id s)\<rparr>"
  have vp: "valid_product cats ?p"
    using x c by (simp add: valid_product_def fields_present_def)
  have resp: "create_products cats s req =
           (Inr (Response 201 (JsonObj (serialize ?p')) [(''Location'', ''/'')]),
            s\<lparr>rows := rows s @ [?p'], next_id := Suc (next_id s)\<rparr>)"
    using check_content_type_accepts [OF ct] body des create_valid [OF vp, of s]
    by (simp add: create_products_def get_json_def deserialize_data_def HTTP_201_CREATED_def)
  have ser: "serialize ?p' ''id'' = Some (JNum (Decimal (int (next_id s)) 0))"
    "serialize ?p' ''name'' = P ''name''"
    "serialize ?p' ''description'' = P ''description''"
    "serialize ?p' ''price'' = P ''price''"
    "serialize ?p' ''available'' = P ''available''"
    "serialize ?p' ''category'' = P ''category''"
    using P by (simp_all add: serialize_def)
  show ?thesis
    using resp ser by (intro exI [of _ ?p']) simp
qed

text \<open>
  C6, the specification's scenario: posting the Fedora to the empty store gives 201, id 1,
  price 12.50 and category \<open>CLOTHS\<close>.
\<close>

theorem post_valid_payload_201_witness:
  "headers json_request ''Content-Type'' = Some ''application/json'' \<and>
   json json_request = Some (JsonObject fedora_payload) \<and>
   valid_payload demo_cats fedora_payload \<and>
   (\<exists>p. create_products demo_cats empty_store json_request =
           (Inr (Response 201 (JsonObj (serialize p)) [(''Location'', ''/'')]),
            \<lparr>rows = [p], next_id = 2\<rparr>) \<and>
         serialize p ''id'' = Some (JNum (Decimal 1 0)) \<and>
         serialize p ''price'' = Some (JNum (Decimal 1250 2)) \<and>
         serialize p ''category'' = Some (JStr ''CLOTHS''))"
proof -
  have ct: "headers json_request ''Content-Type'' = Some ''application/json''"
    and body: "json json_request = Some (JsonObject fedora_payload)"
    by (simp_all add: json_request_def)
  from post_valid_payload_201 [OF ct body valid_fedora_payload, of empty_store]
  obtain p where
    p: "create_products demo_cats empty_store json_request =
          (Inr (Response 201 (JsonObj (serialize p)) [(''Location'', ''/'')]),
           empty_store\<lparr>rows := rows empty_store @ [p],
                         next_id := Suc (next_id empty_store)\<rparr>)"
       "serialize p ''id'' = Some (JNum (Decimal (int (next_id empty_store)) 0))"
       "serialize p ''price'' = fedora_payload ''price''"
       "serialize p ''category'' = fedora_payload ''category''"
    by blast
  have "empty_store\<lparr>rows := rows empty_store @ [p], next_id := Suc (next_id empty_store)\<rparr>
          = \<lparr>rows = [p], next_id = 2\<rparr>"
    by (simp add: empty_store_def)
  moreover have "int (next_id empty_store) = 1"
    by (simp add: empty_store_def)
  moreover have "fedora_payload ''price'' = Some (JNum (Decimal 1250 2))"
    and "fedora_payload ''category'' = Some (JStr ''CLOTHS'')"
    by (simp_all add: fedora_payload_def)
  ultimately show ?thesis
    using p ct body valid_fedora_payload by auto
qed

subsection \<open>C7: updating a product that was never persisted\<close>

text \<open>
  C7: \<open>update\<close> on a product whose id is null fails with \<open>DataValidationError\<close>, whatever
  the store and the product's other fields, and the store is left as it was.
\<close>

theorem update_null_id_fails:
  "ident p = None \<Longrightarrow> update s p = (Inl DataValidationError, s)"
  by (simp add: update_def)

text \<open>C7, at a freshly constructed product and a store that holds one row.\<close>

theorem update_null_id_fails_witness:
  "ident Product_init = None \<and>
   update one_row Product_init = (Inl DataValidationError, one_row)"
  using update_null_id_fails [of Product_init one_row] by (simp add: Product_init_def)

subsection \<open>C8: serialize, then deserialize\<close>

text \<open>
  C8: for every product \<open>p\<close> with its required fields set and a declared category,
  deserializing \<open>serialize p\<close> into any object succeeds and gives that object the name,
  description, price, availability and category of \<open>p\<close>; the price is the same decimal,
  digit for digit.
\<close>

theorem deserialize_serialize:
  assumes "fields_present cats p"
  shows "\<exists>r. deserialize cats q (serialize p) = Inr r \<and>
           name r = name p \<and> description r = description p \<and> price r = price p \<and>
           available r = available p \<and> category r = category p \<and> ident r = ident q"
  using assms
  by (cases "category p")
     (auto simp: fields_present_def deserialize_def serialize_def get_str_def get_num_def
        get_bool_def getattr_Category_def)

text \<open>C8, at the Fedora, deserialized into a freshly constructed product.\<close>

theorem deserialize_serialize_witness:
  "fields_present demo_cats fedora \<and>
   deserialize demo_cats Product_init (serialize fedora) = Inr (fedora\<lparr>ident := None\<rparr>)"
proof -
  have fp: "fields_present demo_cats fedora"
    by (simp add: fields_present_def demo_cats_def fedora_def)
  from deserialize_serialize [OF fp, of Product_init]
  obtain r where r: "deserialize demo_cats Product_init (serialize fedora) = Inr r"
    "name r = name fedora" "description r = description fedora" "price r = price fedora"
    "available r = available fedora" "category r = category fedora"
    "ident r = ident Product_init"
    by blast
  have "r = fedora\<lparr>ident := None\<rparr>"
    using r(2-7) by (cases r) (simp add: fedora_def Product_init_def)
  with r(1) fp show ?thesis by simp
qed

subsection \<open>C9: a category that the enum does not declare\<close>

text \<open>
  C9, as stated, speaks of every request whose category parameter names no member. When a
  name is given too, the category is never looked up: the request
  \<open>?name=Fedora&category=bogus\<close> is answered with 200 and the products named Fedora.
\<close>

theorem bogus_category_ignored_counterexample:
  "args name_and_bogus_category ''category'' = Some ''bogus'' \<and>
   ascii_upper ''bogus'' \<notin> set demo_cats \<and>
   read_all_products ascii_upper demo_cats one_row name_and_bogus_category =
     (Inr (Response 200 (JsonList [serialize fedora]) []), one_row)"
  by (simp add: upper_bogus demo_cats_def name_and_bogus_category_def read_all_products_def
        truthy_def find_by_name_def one_row_def fedora_def HTTP_200_OK_def Let_def)

text \<open>
  C9, amended: for every \<open>GET /products\<close> request whose name parameter is absent or
  empty and whose category parameter is non-empty and, uppercased, names no member of the
  enum, the lookup \<open>getattr(Category, value.upper())\<close> raises an \<open>AttributeError\<close> that
  the handler does not catch; the request is answered with 500, not with a 400 validation
  response. This holds whatever the uppercasing function does to the text.
\<close>

theorem unknown_category_raises:
  assumes "\<not> truthy (args req ''name'')"
    and "args req ''category'' = Some c" and "c \<noteq> []"
    and "upper c \<notin> set cats"
  shows "read_all_products upper cats s req = (Inl AttributeError, s) \<and>
         status_of (fst (read_all_products upper cats s req)) = 500"
  using assms
  by (simp add: read_all_products_def truthy_def getattr_Category_def status_of_def Let_def)

text \<open>C9, reached from the public interface by \<open>?category=bogus\<close>.\<close>

theorem unknown_category_raises_witness:
  "\<not> truthy (args bogus_category ''name'') \<and>
   args bogus_category ''category'' = Some ''bogus'' \<and>
   ascii_upper ''bogus'' \<notin> set demo_cats \<and>
   read_all_products ascii_upper demo_cats one_row bogus_category =
     (Inl AttributeError, one_row) \<and>
   status_of (fst (read_all_products ascii_upper demo_cats one_row bogus_category)) \<noteq> 400"
  using unknown_category_raises [of bogus_category "''bogus''" ascii_upper demo_cats one_row]
  by (simp add: bogus_category_def truthy_def upper_bogus demo_cats_def status_of_def)

subsection \<open>C10: one filter at most\<close>

text \<open>
  C10: \<open>GET /products\<close> answers with the one alternative that \<open>selected_filter\<close> picks:
  the name when it is given and non-empty, whatever the other parameters; else the category
  when it is given and non-empty, whatever the availability; else the availability when it
  is given and non-empty; else no filter. An empty value counts as absent. The answer is
  status 200 with the serialization of each product that the alternative yields: the rows
  of that name, the rows of the member that the uppercased category names, the rows of the
  availability that the string \<open>true\<close> or \<open>false\<close> denotes, and with no effective
  parameter every row of the store.
\<close>

theorem read_all_products_one_filter:
  "read_all_products upper cats s req = apply_filter upper cats s (selected_filter req) \<and>
   (\<forall>n. selected_filter req = ByName n \<longrightarrow>
      read_all_products upper cats s req =
        (Inr (Response 200 (JsonList (map serialize [p \<leftarrow> rows s. name p = Some n])) []),
         s)) \<and>
   (\<forall>c. selected_filter req = ByCategory c \<and> upper c \<in> set cats \<longrightarrow>
      read_all_products upper cats s req =
        (Inr (Response 200
               (JsonList (map serialize [p \<leftarrow> rows s. category p = Some (Member (upper c))]))
               []), s)) \<and>
   (\<forall>a b. selected_filter req = ByAvailable a \<and> parse_available (AStr a) = Some b \<longrightarrow>
      read_all_products upper cats s req =
        (Inr (Response 200 (JsonList (map serialize [p \<leftarrow> rows s. available p = Some b])) []),
         s)) \<and>
   (selected_filter req = NoFilter \<longrightarrow>
      read_all_products upper cats s req =
        (Inr (Response 200 (JsonList (map serialize (rows s))) []), s))"
proof -
  have eq: "read_all_products upper cats s req = apply_filter upper cats s (selected_filter req)"
    by (simp add: read_all_products_chosen apply_filter_def selected_filter_def effective_def
          truthy_def split: option.splits)
  show ?thesis
    unfolding eq
    by (simp add: apply_filter_def listing_def find_by_name_def find_by_category_def
          find_by_availability_def all_products_def)
qed

text \<open>
  C10, on a store that holds an available hat and an unavailable apple: with all three
  parameters the name decides (the undeclared category is not even looked up); with a
  category and an availability the category decides; with an empty name the availability
  decides; with no parameter both products are listed.
\<close>

theorem read_all_products_one_filter_witness:
  "selected_filter all_three_params = ByName ''Fedora'' \<and>
   read_all_products ascii_upper demo_cats two_rows all_three_params =
     (Inr (Response 200 (JsonList [serialize fedora]) []), two_rows) \<and>
   selected_filter category_and_available = ByCategory ''food'' \<and>
   ascii_upper ''food'' \<in> set demo_cats \<and>
   read_all_products ascii_upper demo_cats two_rows category_and_available =
     (Inr (Response 200 (JsonList [serialize apple]) []), two_rows) \<and>
   selected_filter empty_name_param = ByAvailable ''false'' \<and>
   parse_available (AStr ''false'') = Some False \<and>
   read_all_products ascii_upper demo_cats two_rows empty_name_param =
     (Inr (Response 200 (JsonList [serialize apple]) []), two_rows) \<and>
   selected_filter no_params = NoFilter \<and>
   read_all_products ascii_upper demo_cats two_rows no_params =
     (Inr (Response 200 (JsonList [serialize fedora, serialize apple]) []), two_rows)"
  using read_all_products_one_filter [of ascii_upper demo_cats two_rows all_three_params]
    read_all_products_one_filter [of ascii_upper demo_cats two_rows category_and_available]
    read_all_products_one_filter [of ascii_upper demo_cats two_rows empty_name_param]
    read_all_products_one_filter [of ascii_upper demo_cats two_rows no_params]
  by (simp add: selected_filter_def effective_def all_three_params_def
        category_and_available_def empty_name_param_def no_params_def apply_filter_def
        listing_def find_by_name_def find_by_category_def find_by_availability_def
        parse_available_def all_products_def two_rows_def fedora_def apple_def upper_food
        demo_cats_def)

end
